theory Spec2Isabelle
  imports Main "HOL-Library.Multiset" "HOL-Library.Char_ord" "HOL-Library.List_Lexorder"
begin

section \<open>JSON documents and the Python operations applied to them\<close>

text \<open>
  Both programs exchange data through \<^verbatim>\<open>github_events.json\<close>. What
  \<^verbatim>\<open>json.load\<close> returns is a Python value built from \<^verbatim>\<open>None\<close>, booleans,
  numbers, strings, lists and dictionaries with string keys. A dictionary is kept as the
  list of its items in insertion order (its keys are distinct; a lookup takes the first
  match). Numbers are the integers: a JSON number with a fraction or an exponent
  becomes a Python float, which is outside this development.
\<close>

datatype json =
    JNull
  | JBool bool
  | JInt int
  | JStr string
  | JArr "json list"
  | JObj "(string \<times> json) list"

text \<open>
  The exceptions the modelled code can meet. Only the decode error carries its message
  (\<^verbatim>\<open>str(e)\<close>), which the programs copy into their answers.
  \<^verbatim>\<open>UnicodeDecodeError\<close> is raised when bytes are not text in the expected
  encoding, \<^verbatim>\<open>RecursionError\<close> when a document is nested too deeply for the
  interpreter, \<^verbatim>\<open>ValueError\<close> stands for the other value errors of the parser, and
  \<^verbatim>\<open>OSError\<close> (of which \<^verbatim>\<open>IOError\<close> is an alias) for a failure of the file
  system.
\<close>

datatype py_error =
    JSONDecodeError string
  | AttributeError
  | TypeError
  | UnicodeDecodeError
  | RecursionError
  | ValueError
  | OSError

text \<open>Truth value of a Python object, as tested by \<^verbatim>\<open>if x\<close> and \<^verbatim>\<open>not x\<close>.\<close>

fun truthy :: "json \<Rightarrow> bool" where
  "truthy JNull = False"
| "truthy (JBool b) = b"
| "truthy (JInt i) = (i \<noteq> 0)"
| "truthy (JStr s) = (s \<noteq> [])"
| "truthy (JArr xs) = (xs \<noteq> [])"
| "truthy (JObj kvs) = (kvs \<noteq> [])"

text \<open>
  \<^verbatim>\<open>a == b\<close>. Booleans are integers in Python (\<^verbatim>\<open>True == 1\<close>); lists are equal
  when equal element by element; two dictionaries are equal when they have as many
  keys and every item of the first has an equal item in the second. Values of different
  kinds are unequal; \<^verbatim>\<open>==\<close> never raises on these values.
\<close>

fun py_eq :: "json \<Rightarrow> json \<Rightarrow> bool"
  and py_eq_list :: "json list \<Rightarrow> json list \<Rightarrow> bool" where
  "py_eq JNull JNull = True"
| "py_eq (JBool a) (JBool b) = (a = b)"
| "py_eq (JBool a) (JInt j) = ((if a then 1 else 0) = j)"
| "py_eq (JInt i) (JBool b) = (i = (if b then 1 else 0))"
| "py_eq (JInt i) (JInt j) = (i = j)"
| "py_eq (JStr s) (JStr t) = (s = t)"
| "py_eq (JArr xs) (JArr ys) = py_eq_list xs ys"
| "py_eq (JObj kvs) (JObj kws) =
     (length kvs = length kws \<and>
      list_all (\<lambda>(k, v). list_ex (\<lambda>(k', w). k' = k \<and> py_eq v w) kws) kvs)"
| "py_eq _ _ = False"
| "py_eq_list [] [] = True"
| "py_eq_list (x # xs) (y # ys) = (py_eq x y \<and> py_eq_list xs ys)"
| "py_eq_list _ _ = False"

text \<open>
  \<^verbatim>\<open>a < b\<close>. Numbers compare by value, strings lexicographically by character code,
  lists by their first unequal elements (or by length when one is a prefix of the
  other). Every other pairing raises \<^verbatim>\<open>TypeError\<close>; in particular any comparison
  involving \<^verbatim>\<open>None\<close>.
\<close>

fun py_lt :: "json \<Rightarrow> json \<Rightarrow> py_error + bool"
  and py_lt_list :: "json list \<Rightarrow> json list \<Rightarrow> py_error + bool" where
  "py_lt (JBool a) (JBool b) = Inr (a < b)"
| "py_lt (JBool a) (JInt j) = Inr ((if a then 1 else 0) < j)"
| "py_lt (JInt i) (JBool b) = Inr (i < (if b then 1 else 0))"
| "py_lt (JInt i) (JInt j) = Inr (i < j)"
| "py_lt (JStr s) (JStr t) = Inr (s < t)"
| "py_lt (JArr xs) (JArr ys) = py_lt_list xs ys"
| "py_lt _ _ = Inl TypeError"
| "py_lt_list [] [] = Inr False"
| "py_lt_list [] (y # ys) = Inr True"
| "py_lt_list (x # xs) [] = Inr False"
| "py_lt_list (x # xs) (y # ys) = (if py_eq x y then py_lt_list xs ys else py_lt x y)"

text \<open>\<^verbatim>\<open>a > b\<close> is the reflected \<^verbatim>\<open>b < a\<close> on these values.\<close>

definition py_gt :: "json \<Rightarrow> json \<Rightarrow> py_error + bool" where
  "py_gt a b = py_lt b a"

text \<open>
  \<^verbatim>\<open>x.get(k, d)\<close>: only a dictionary has the method; on anything else the attribute
  lookup raises.
\<close>

fun py_get :: "json \<Rightarrow> string \<Rightarrow> json \<Rightarrow> py_error + json" where
  "py_get (JObj kvs) k d = Inr (case map_of kvs k of None \<Rightarrow> d | Some v \<Rightarrow> v)"
| "py_get _ k d = Inl AttributeError"

text \<open>
  The elements a \<^verbatim>\<open>for\<close> loop, a comprehension or \<^verbatim>\<open>sorted\<close> draws from a value:
  a list gives its elements, a dictionary its keys, a string its characters; the other
  values are not iterable.
\<close>

fun py_iter :: "json \<Rightarrow> py_error + json list" where
  "py_iter (JArr xs) = Inr xs"
| "py_iter (JObj kvs) = Inr (map (\<lambda>kv. JStr (fst kv)) kvs)"
| "py_iter (JStr s) = Inr (map (\<lambda>c. JStr [c]) s)"
| "py_iter _ = Inl TypeError"

text \<open>Whether a value can be a dictionary key: lists and dictionaries are unhashable.\<close>

fun hashable :: "json \<Rightarrow> bool" where
  "hashable (JArr xs) = False"
| "hashable (JObj kvs) = False"
| "hashable _ = True"


section \<open>The events file\<close>

text \<open>
  \<^verbatim>\<open>EVENTS_FILE\<close> is the only state the two programs share. The file is taken at
  the level of \<^verbatim>\<open>json.load\<close>: it does not exist; or its text is rejected by the
  parser with a \<^verbatim>\<open>JSONDecodeError\<close> of the given message; or opening and reading
  it raises another exception (\<^verbatim>\<open>UnicodeDecodeError\<close> when its bytes are not text,
  \<^verbatim>\<open>OSError\<close> when it cannot be read, \<^verbatim>\<open>RecursionError\<close> when it is nested
  too deeply); or it holds a document.
  \<^verbatim>\<open>json.dump(v, f)\<close> on the freshly truncated file leaves the document \<open>v\<close>.
\<close>

datatype store_file =
    Absent
  | Malformed string
  | Unreadable py_error
  | Document json

subsection \<open>webhook_server.py\<close>

text \<open>
  What the handler uses of an aiohttp request: the outcome of
  \<^verbatim>\<open>await request.text()\<close>, which is the body as text or the exception raised when
  the bytes sent cannot be decoded, and the value of the \<^verbatim>\<open>X-GitHub-Event\<close> header,
  if the header was sent.
\<close>

record request =
  body :: "py_error + string"
  github_event :: "string option"

text \<open>
  The three answers of \<^verbatim>\<open>handle_webhook\<close>:
  \<^item> \<open>Received\<close> is \<^verbatim>\<open>{"status": "received"}\<close> with status 200;
  \<^item> \<open>DecodeFailure msg b\<close> is
    \<^verbatim>\<open>{"error": "JSON Decode Error: <msg>", "body_received": <b>}\<close> with status 400;
  \<^item> \<open>Unexpected e\<close> is \<^verbatim>\<open>{"error": str(e)}\<close> with status 400.
\<close>

datatype response =
    Received
  | DecodeFailure string string
  | Unexpected py_error

fun status_code :: "response \<Rightarrow> nat" where
  "status_code Received = 200"
| "status_code (DecodeFailure msg b) = 400"
| "status_code (Unexpected e) = 400"

text \<open>The event record built from the clock reading, the header and the parsed body.\<close>

definition event_record :: "string \<Rightarrow> string option \<Rightarrow> json \<Rightarrow> json" where
  "event_record now header data =
     JObj [(''timestamp'', JStr now),
           (''event_type'', JStr (case header of None \<Rightarrow> ''unknown'' | Some h \<Rightarrow> h)),
           (''payload'', data)]"

text \<open>
  \<^verbatim>\<open>events = []\<close>, replaced by \<^verbatim>\<open>json.load(f)\<close> when the file exists.
\<close>

definition load_events :: "store_file \<Rightarrow> py_error + json" where
  "load_events file =
     (case file of
        Absent \<Rightarrow> Inr (JArr [])
      | Malformed msg \<Rightarrow> Inl (JSONDecodeError msg)
      | Unreadable e \<Rightarrow> Inl e
      | Document v \<Rightarrow> Inr v)"

text \<open>\<^verbatim>\<open>events.append(event)\<close>: only a list has the method.\<close>

fun py_append :: "json \<Rightarrow> json \<Rightarrow> py_error + json list" where
  "py_append (JArr xs) x = Inr (xs @ [x])"
| "py_append _ x = Inl AttributeError"

text \<open>\<^verbatim>\<open>events[-100:]\<close>: the whole list when it is no longer than 100.\<close>

definition last_100 :: "'a list \<Rightarrow> 'a list" where
  "last_100 xs = drop (length xs - 100) xs"

text \<open>
  The two \<^verbatim>\<open>except\<close> clauses: a \<^verbatim>\<open>JSONDecodeError\<close> is answered with its
  message and the body that was read, any other exception with its text.
\<close>

fun on_exception :: "py_error \<Rightarrow> string \<Rightarrow> response" where
  "on_exception (JSONDecodeError msg) b = DecodeFailure msg b"
| "on_exception e b = Unexpected e"

text \<open>
  The handler. Its surroundings are parameters: \<open>loads\<close> stands for
  \<^verbatim>\<open>json.loads\<close> and \<open>pprint\<close> for \<^verbatim>\<open>pprint\<close> (\<open>Some e\<close> when it raises \<open>e\<close>,
  as it does with \<^verbatim>\<open>RecursionError\<close> on a document nested more deeply than the
  interpreter allows), \<open>now\<close> for \<^verbatim>\<open>datetime.now().isoformat()\<close>. The result is
  the answer and the file afterwards.

  The whole body runs under the \<^verbatim>\<open>try\<close>, in this order: read the body, parse it,
  print the document, build and print the event, load the stored events, append, cut,
  write. When reading the body raises, \<^verbatim>\<open>body\<close> is not bound and the exception is
  none of the parser's, so the second \<^verbatim>\<open>except\<close> clause answers. The file is opened
  for writing only after the new list has been computed, so a failure leaves it as it
  was. The \<^verbatim>\<open>print\<close> calls, the opening of the file for writing and the final
  \<^verbatim>\<open>json.dump\<close> are taken to succeed: the list written consists of documents that
  \<^verbatim>\<open>json.load\<close> returned and of the event that \<^verbatim>\<open>pprint\<close> has just traversed.
\<close>

definition handle_webhook ::
  "(string \<Rightarrow> py_error + json) \<Rightarrow> (json \<Rightarrow> py_error option) \<Rightarrow> string \<Rightarrow> request \<Rightarrow>
     store_file \<Rightarrow> response \<times> store_file" where
  "handle_webhook loads pprint now req file =
     (case body req of
        Inl e \<Rightarrow> (Unexpected e, file)
      | Inr b \<Rightarrow>
          (case loads b of
             Inl e \<Rightarrow> (on_exception e b, file)
           | Inr data \<Rightarrow>
               (case pprint data of
                  Some e \<Rightarrow> (on_exception e b, file)
                | None \<Rightarrow>
                    (case pprint (event_record now (github_event req) data) of
                       Some e \<Rightarrow> (on_exception e b, file)
                     | None \<Rightarrow>
                         (case load_events file of
                            Inl e \<Rightarrow> (on_exception e b, file)
                          | Inr events \<Rightarrow>
                              (case py_append events (event_record now (github_event req) data) of
                                 Inl e \<Rightarrow> (on_exception e b, file)
                               | Inr events' \<Rightarrow>
                                   (Received, Document (JArr (last_100 events')))))))))"

text \<open>
  Requests are served one after the other, each on the file the previous one left.
  A call is a clock reading and a request.
\<close>

fun serve ::
  "(string \<Rightarrow> py_error + json) \<Rightarrow> (json \<Rightarrow> py_error option) \<Rightarrow> (string \<times> request) list \<Rightarrow>
     store_file \<Rightarrow> response list \<times> store_file" where
  "serve loads pprint [] file = ([], file)"
| "serve loads pprint (call # calls) file =
     (case handle_webhook loads pprint (fst call) (snd call) file of
        (r, file') \<Rightarrow>
          (case serve loads pprint calls file' of (rs, file'') \<Rightarrow> (r # rs, file'')))"

subsection \<open>server.py: the two event tools\<close>

text \<open>
  A tool returns a string produced by \<^verbatim>\<open>json.dumps\<close>; the model keeps the value
  that is serialised:
  \<^item> \<open>Dumps v\<close> is \<^verbatim>\<open>json.dumps(v)\<close>;
  \<^item> \<open>DumpsStatuses d\<close> is \<^verbatim>\<open>json.dumps(latest_statuses)\<close>, the dictionary given
    by its items (key and snapshot) in insertion order;
  \<^item> \<open>ReadError e\<close> is
    \<^verbatim>\<open>json.dumps({"error": "Failed to read or parse events file: <str(e)>"})\<close>.
\<close>

record snapshot =
  sn_id :: json
  sn_status :: json
  sn_conclusion :: json
  sn_timestamp :: json

datatype tool_output =
    Dumps json
  | DumpsStatuses "(json \<times> snapshot) list"
  | ReadError py_error

text \<open>A comprehension or a key computation over a list stops at the first element that raises.\<close>

fun collect :: "('a \<Rightarrow> py_error + 'b) \<Rightarrow> 'a list \<Rightarrow> py_error + 'b list" where
  "collect f [] = Inr []"
| "collect f (x # xs) =
     (case f x of
        Inl e \<Rightarrow> Inl e
      | Inr y \<Rightarrow> (case collect f xs of Inl e \<Rightarrow> Inl e | Inr ys \<Rightarrow> Inr (y # ys)))"

text \<open>\<^verbatim>\<open>lambda x: x.get("timestamp", "")\<close>, paired with its argument.\<close>

definition timestamp_key :: "json \<Rightarrow> py_error + json \<times> json" where
  "timestamp_key x =
     (case py_get x ''timestamp'' (JStr []) of Inl e \<Rightarrow> Inl e | Inr k \<Rightarrow> Inr (k, x))"

text \<open>
  \<^verbatim>\<open>sorted(..., reverse=True)\<close> on keyed items. Python's sort is stable and compares
  keys with \<^verbatim>\<open><\<close> only; with \<^verbatim>\<open>reverse=True\<close> the items come out in
  descending key order and items with equal keys keep their input order. A comparison
  that raises aborts the sort. It is written here as an insertion sort from the right:
  an item is placed before the first item whose key is not greater than its own.
  When the keys are all strings or all numbers no comparison raises and the outcome is
  the one stable descending arrangement, whatever the algorithm; when keys of
  incomparable kinds meet, Python's own algorithm also raises \<^verbatim>\<open>TypeError\<close>,
  possibly on another pair.
\<close>

fun insert_desc :: "json \<times> 'a \<Rightarrow> (json \<times> 'a) list \<Rightarrow> py_error + (json \<times> 'a) list" where
  "insert_desc x [] = Inr [x]"
| "insert_desc x (y # ys) =
     (case py_lt (fst x) (fst y) of
        Inl e \<Rightarrow> Inl e
      | Inr False \<Rightarrow> Inr (x # y # ys)
      | Inr True \<Rightarrow> (case insert_desc x ys of Inl e \<Rightarrow> Inl e | Inr zs \<Rightarrow> Inr (y # zs)))"

fun sorted_reverse :: "(json \<times> 'a) list \<Rightarrow> py_error + (json \<times> 'a) list" where
  "sorted_reverse [] = Inr []"
| "sorted_reverse (x # xs) =
     (case sorted_reverse xs of Inl e \<Rightarrow> Inl e | Inr ys \<Rightarrow> insert_desc x ys)"

text \<open>\<^verbatim>\<open>xs[:limit]\<close>: a negative limit counts from the end.\<close>

definition slice_to :: "int \<Rightarrow> 'a list \<Rightarrow> 'a list" where
  "slice_to limit xs =
     (if 0 \<le> limit then take (nat limit) xs else take (length xs - nat (- limit)) xs)"

text \<open>\<^verbatim>\<open>sorted(events, key=lambda x: x.get("timestamp", ""), reverse=True)\<close>.\<close>

definition sorted_events :: "json \<Rightarrow> py_error + json list" where
  "sorted_events events =
     (case py_iter events of
        Inl e \<Rightarrow> Inl e
      | Inr xs \<Rightarrow>
          (case collect timestamp_key xs of
             Inl e \<Rightarrow> Inl e
           | Inr kxs \<Rightarrow>
               (case sorted_reverse kxs of Inl e \<Rightarrow> Inl e | Inr srt \<Rightarrow> Inr (map snd srt))))"

text \<open>
  \<^verbatim>\<open>get_recent_actions_events\<close>. Everything after the existence test runs under
  \<^verbatim>\<open>except Exception\<close>, so the tool always returns.
\<close>

definition get_recent_actions_events :: "store_file \<Rightarrow> int \<Rightarrow> tool_output" where
  "get_recent_actions_events file limit =
     (case file of
        Absent \<Rightarrow> Dumps (JArr [])
      | Malformed msg \<Rightarrow> ReadError (JSONDecodeError msg)
      | Unreadable e \<Rightarrow> ReadError e
      | Document events \<Rightarrow>
          (case sorted_events events of
             Inl e \<Rightarrow> ReadError e
           | Inr srt \<Rightarrow> Dumps (JArr (slice_to limit srt))))"

text \<open>
  The comprehension that selects the payloads of the workflow-run events:
  \<^verbatim>\<open>event.get("event_type") == "workflow_run" and "payload" in event\<close>.
  Once \<^verbatim>\<open>event.get\<close> has succeeded the event is a dictionary.
\<close>

fun payload_of :: "json \<Rightarrow> json option" where
  "payload_of (JObj kvs) = map_of kvs ''payload''"
| "payload_of _ = None"

definition selected_payload :: "json \<Rightarrow> py_error + json option" where
  "selected_payload event =
     (case py_get event ''event_type'' JNull of
        Inl e \<Rightarrow> Inl e
      | Inr t \<Rightarrow> Inr (if py_eq t (JStr ''workflow_run'') then payload_of event else None))"

definition select_workflow_runs :: "json list \<Rightarrow> py_error + json list" where
  "select_workflow_runs events =
     (case collect selected_payload events of
        Inl e \<Rightarrow> Inl e
      | Inr ps \<Rightarrow> Inr (List.map_filter (\<lambda>p. p) ps))"

text \<open>\<^verbatim>\<open>run.get("workflow", {}).get("name")\<close> and \<^verbatim>\<open>run.get("workflow_run", {})\<close>.\<close>

definition workflow_name_of :: "json \<Rightarrow> py_error + json" where
  "workflow_name_of run =
     (case py_get run ''workflow'' (JObj []) of Inl e \<Rightarrow> Inl e | Inr w \<Rightarrow> py_get w ''name'' JNull)"

definition run_details :: "json \<Rightarrow> py_error + json" where
  "run_details run = py_get run ''workflow_run'' (JObj [])"

text \<open>
  The four \<^verbatim>\<open>.get\<close> calls on \<^verbatim>\<open>run.get("workflow_run", {})\<close>: the first one
  (\<^verbatim>\<open>"id"\<close>) raises when that value is not a dictionary, and then none of them is
  reached; otherwise all four succeed.
\<close>

fun snapshot_of :: "json \<Rightarrow> py_error + snapshot" where
  "snapshot_of (JObj kvs) =
     Inr \<lparr> sn_id = (case map_of kvs ''id'' of None \<Rightarrow> JNull | Some v \<Rightarrow> v),
           sn_status = (case map_of kvs ''status'' of None \<Rightarrow> JNull | Some v \<Rightarrow> v),
           sn_conclusion = (case map_of kvs ''conclusion'' of None \<Rightarrow> JNull | Some v \<Rightarrow> v),
           sn_timestamp = (case map_of kvs ''updated_at'' of None \<Rightarrow> JNull | Some v \<Rightarrow> v) \<rparr>"
| "snapshot_of _ = Inl AttributeError"

text \<open>
  The filter on \<^verbatim>\<open>workflow_name\<close>:
  \<^verbatim>\<open>[run for run in workflow_runs if run.get("workflow", {}).get("name") == workflow_name]\<close>.
\<close>

definition name_matches :: "string \<Rightarrow> json \<Rightarrow> py_error + json option" where
  "name_matches n run =
     (case workflow_name_of run of
        Inl e \<Rightarrow> Inl e
      | Inr name \<Rightarrow> Inr (if py_eq name (JStr n) then Some run else None))"

definition runs_named :: "string \<Rightarrow> json list \<Rightarrow> py_error + json list" where
  "runs_named n runs =
     (case collect (name_matches n) runs of
        Inl e \<Rightarrow> Inl e
      | Inr rs \<Rightarrow> Inr (List.map_filter (\<lambda>r. r) rs))"

text \<open>
  \<^verbatim>\<open>latest_statuses\<close> is a dictionary keyed by the workflow names. Key lookup
  uses Python equality; storing under a key that is already present keeps the key's
  position (and the key object) and replaces the value.
\<close>

fun dict_find :: "(json \<times> 'v) list \<Rightarrow> json \<Rightarrow> 'v option" where
  "dict_find [] k = None"
| "dict_find (kv # kvs) k = (if py_eq (fst kv) k then Some (snd kv) else dict_find kvs k)"

fun dict_set :: "(json \<times> 'v) list \<Rightarrow> json \<Rightarrow> 'v \<Rightarrow> (json \<times> 'v) list" where
  "dict_set [] k v = [(k, v)]"
| "dict_set (kv # kvs) k v =
     (if py_eq (fst kv) k then (fst kv, v) # kvs else kv # dict_set kvs k v)"

text \<open>
  The loop over the runs. A run without a truthy name is skipped. Otherwise the run id
  is read (\<^verbatim>\<open>AttributeError\<close> when \<^verbatim>\<open>workflow_run\<close> is not a dictionary), the name
  is looked up (\<^verbatim>\<open>TypeError\<close> when it is unhashable), and the run is stored when
  the name is new or when \<^verbatim>\<open>run_id > latest_statuses[name]["id"]\<close>. That comparison
  is evaluated only for a name already present, and may raise.
\<close>

fun latest_statuses ::
  "json list \<Rightarrow> (json \<times> snapshot) list \<Rightarrow> py_error + (json \<times> snapshot) list" where
  "latest_statuses [] acc = Inr acc"
| "latest_statuses (run # runs) acc =
     (case workflow_name_of run of
        Inl e \<Rightarrow> Inl e
      | Inr name \<Rightarrow>
          if \<not> truthy name then latest_statuses runs acc
          else
            (case run_details run of
               Inl e \<Rightarrow> Inl e
             | Inr details \<Rightarrow>
                 (case snapshot_of details of
                    Inl e \<Rightarrow> Inl e
                  | Inr new \<Rightarrow>
                      if \<not> hashable name then Inl TypeError
                      else
                        (case dict_find acc name of
                           None \<Rightarrow> latest_statuses runs (dict_set acc name new)
                         | Some kept \<Rightarrow>
                             (case py_gt (sn_id new) (sn_id kept) of
                                Inl e \<Rightarrow> Inl e
                              | Inr True \<Rightarrow> latest_statuses runs (dict_set acc name new)
                              | Inr False \<Rightarrow> latest_statuses runs acc)))))"

definition status_message :: "string \<Rightarrow> tool_output" where
  "status_message msg = Dumps (JObj [(''status'', JStr msg)])"

definition report :: "json list \<Rightarrow> py_error + tool_output" where
  "report runs =
     (case latest_statuses runs [] of Inl e \<Rightarrow> Inl e | Inr d \<Rightarrow> Inr (DumpsStatuses d))"

text \<open>
  \<^verbatim>\<open>except (json.JSONDecodeError, IOError)\<close> around the read in
  \<^verbatim>\<open>get_workflow_status\<close>: these two are turned into the error object, any other
  exception leaves the function.
\<close>

fun read_failure :: "py_error \<Rightarrow> py_error + tool_output" where
  "read_failure (JSONDecodeError msg) = Inr (ReadError (JSONDecodeError msg))"
| "read_failure OSError = Inr (ReadError OSError)"
| "read_failure e = Inl e"

text \<open>
  \<^verbatim>\<open>get_workflow_status\<close>. Only \<^verbatim>\<open>json.load\<close> runs under a \<^verbatim>\<open>try\<close>; an
  exception raised later leaves the function (\<open>Inl\<close>). \<^verbatim>\<open>if workflow_name\<close> is
  false for \<^verbatim>\<open>None\<close> and for the empty string.
\<close>

definition get_workflow_status :: "store_file \<Rightarrow> string option \<Rightarrow> py_error + tool_output" where
  "get_workflow_status file workflow_name =
     (case file of
        Absent \<Rightarrow> Inr (status_message ''No events file found. No workflows to report.'')
      | Malformed msg \<Rightarrow> read_failure (JSONDecodeError msg)
      | Unreadable e \<Rightarrow> read_failure e
      | Document events \<Rightarrow>
          (case py_iter events of
             Inl e \<Rightarrow> Inl e
           | Inr evs \<Rightarrow>
               (case select_workflow_runs evs of
                  Inl e \<Rightarrow> Inl e
                | Inr workflow_runs \<Rightarrow>
                    if workflow_runs = [] then Inr (status_message ''No workflow run events found.'')
                    else
                      (case workflow_name of
                         None \<Rightarrow> report workflow_runs
                       | Some n \<Rightarrow>
                           if n = [] then report workflow_runs
                           else
                             (case runs_named n workflow_runs of
                                Inl e \<Rightarrow> Inl e
                              | Inr rs \<Rightarrow>
                                  if rs = []
                                  then Inr (status_message
                                    (''No workflow runs found for '' @ [CHR 0x27] @ n @ [CHR 0x27] @ ''.''))
                                  else report rs)))))"


section \<open>Logs and their events\<close>

text \<open>
  The notions the statements below are phrased in. They describe the data, and are not
  part of the programs.

  \<open>at_key k v\<close> is the member \<open>k\<close> of a dictionary, \<open>JNull\<close> when there is none.
\<close>

fun is_dict :: "json \<Rightarrow> bool" where
  "is_dict (JObj kvs) = True"
| "is_dict _ = False"

fun at_key :: "string \<Rightarrow> json \<Rightarrow> json" where
  "at_key k (JObj kvs) = (case map_of kvs k of None \<Rightarrow> JNull | Some v \<Rightarrow> v)"
| "at_key k _ = JNull"

text \<open>
  An event carries a string timestamp, or none (the sort key then defaults to the empty
  string); \<open>timestamp_of\<close> is that string.
\<close>

fun stamped :: "json \<Rightarrow> bool" where
  "stamped (JObj kvs) =
     (case map_of kvs ''timestamp'' of None \<Rightarrow> True | Some (JStr s) \<Rightarrow> True | Some _ \<Rightarrow> False)"
| "stamped _ = False"

fun timestamp_of :: "json \<Rightarrow> string" where
  "timestamp_of (JObj kvs) = (case map_of kvs ''timestamp'' of Some (JStr s) \<Rightarrow> s | _ \<Rightarrow> [])"
| "timestamp_of _ = []"

text \<open>
  A workflow-run event is a dictionary classified \<^verbatim>\<open>workflow_run\<close> that has a
  payload; \<open>workflow_payloads\<close> are the payloads of those events, in log order.
\<close>

fun is_workflow_run :: "json \<Rightarrow> bool" where
  "is_workflow_run (JObj kvs) =
     (map_of kvs ''event_type'' = Some (JStr ''workflow_run'') \<and> map_of kvs ''payload'' \<noteq> None)"
| "is_workflow_run _ = False"

definition workflow_payloads :: "json list \<Rightarrow> json list" where
  "workflow_payloads evs = List.map_filter payload_of (filter is_workflow_run evs)"

text \<open>
  The name of a payload can be read when the payload is a dictionary whose
  \<^verbatim>\<open>workflow\<close> member, if present, is a dictionary; its run details can be read when
  it is a dictionary whose \<^verbatim>\<open>workflow_run\<close> member, if present, is a dictionary. The
  workflow name and the run identifier are the nested members.
\<close>

fun name_readable :: "json \<Rightarrow> bool" where
  "name_readable (JObj kvs) = (case map_of kvs ''workflow'' of None \<Rightarrow> True | Some w \<Rightarrow> is_dict w)"
| "name_readable _ = False"


definition run_name :: "json \<Rightarrow> json" where
  "run_name p = at_key ''name'' (at_key ''workflow'' p)"






text \<open>
  A call is ingested as the document \<open>data\<close> when its body is text that parses to
  \<open>data\<close> and the handler prints the document and the event without failure: these
  are the calls that reach the events file.
\<close>

definition ingested ::
  "(string \<Rightarrow> py_error + json) \<Rightarrow> (json \<Rightarrow> py_error option) \<Rightarrow> string \<times> request \<Rightarrow> json \<Rightarrow> bool" where
  "ingested loads pprint call data =
     ((case body (snd call) of Inl e \<Rightarrow> False | Inr b \<Rightarrow> loads b = Inr data) \<and>
      pprint data = None \<and>
      pprint (event_record (fst call) (github_event (snd call)) data) = None)"

text \<open>
  The events that a list of calls appends, in arrival order, given the documents their
  bodies parse to.
\<close>

definition appended :: "(string \<times> request) list \<Rightarrow> json list \<Rightarrow> json list" where
  "appended calls datas =
     map (\<lambda>(call, data). event_record (fst call) (github_event (snd call)) data) (zip calls datas)"



text \<open>An event paired with its sort key.\<close>

definition item_of :: "json \<Rightarrow> json \<times> json" where
  "item_of e = (JStr (timestamp_of e), e)"

text \<open>
  A workflow-run event as the webhook handler stores it, for the examples: received at
  \<open>t\<close>, for the workflow \<open>name\<close>, with the given \<^verbatim>\<open>workflow_run\<close> members.
\<close>

definition run_event :: "string \<Rightarrow> string \<Rightarrow> (string \<times> json) list \<Rightarrow> json" where
  "run_event t name details =
     event_record t (Some ''workflow_run'')
       (JObj [(''workflow'', JObj [(''name'', JStr name)]), (''workflow_run'', JObj details)])"

section \<open>Properties of the webhook handler\<close>

lemma last_100_short: "length xs \<le> 100 \<Longrightarrow> last_100 xs = xs"
  by (simp add: last_100_def)

lemma last_100_absorb: "last_100 (last_100 xs @ ys) = last_100 (xs @ ys)"
proof (cases "length xs \<le> 100")
  case True
  then show ?thesis by (simp add: last_100_def)
next
  case False
  then have "length xs + length ys - (length xs - 100 + 100) + (length xs - 100)
      = length xs + length ys - 100"
    by arith
  with False show ?thesis by (simp add: last_100_def)
qed

lemma on_exception_other: "(\<forall>msg. e \<noteq> JSONDecodeError msg) \<Longrightarrow> on_exception e b = Unexpected e"
  by (cases e) auto

text \<open>
  C6, as stated, fails: a POST whose bytes are not text cannot be parsed, and it is
  answered with status 400 and the error text alone, without the \<^verbatim>\<open>body_received\<close>
  field (reading the body raised, so there is no body to echo).
\<close>

theorem undecodable_body_counterexample:
  "handle_webhook (\<lambda>s. Inr JNull) (\<lambda>v. None) ''2025-01-01T00:00:00''
     \<lparr>body = Inl UnicodeDecodeError, github_event = Some ''push''\<rparr> (Document (JArr [JInt 1]))
   = (Unexpected UnicodeDecodeError, Document (JArr [JInt 1]))"
  by (simp add: handle_webhook_def)

text \<open>
  C6, amended. A POST whose body is text that the parser rejects with a decode error is
  answered with status 400, the decode error's message and the raw body. A POST from
  which no document is obtained for another reason (the bytes are not text, or the
  parser raises another exception) is answered with status 400 and the error text only.
  In each case the events file is left as it was.
\<close>

theorem webhook_rejects_unparseable_body:
  "(body req = Inr b \<and> loads b = Inl (JSONDecodeError msg) \<longrightarrow>
      handle_webhook loads pprint now req file = (DecodeFailure msg b, file)) \<and>
   (body req = Inl e \<longrightarrow>
      handle_webhook loads pprint now req file = (Unexpected e, file)) \<and>
   (body req = Inr b \<and> loads b = Inl e \<and> (\<forall>m. e \<noteq> JSONDecodeError m) \<longrightarrow>
      handle_webhook loads pprint now req file = (Unexpected e, file)) \<and>
   ((case body req of Inl e \<Rightarrow> True | Inr b \<Rightarrow> isl (loads b)) \<longrightarrow>
      snd (handle_webhook loads pprint now req file) = file \<and>
      status_code (fst (handle_webhook loads pprint now req file)) = 400)"
proof -
  have "status_code (on_exception x y) = 400" for x y
    by (cases x) auto
  then show ?thesis
    by (auto simp: handle_webhook_def on_exception_other split: sum.splits)
qed

theorem webhook_rejects_unparseable_body_witness:
  "handle_webhook
     (\<lambda>s. if s = ''not json'' then Inl (JSONDecodeError ''Expecting value: line 1 column 1 (char 0)'')
           else Inr JNull)
     (\<lambda>v. None) ''2025-01-01T00:00:00'' \<lparr>body = Inr ''not json'', github_event = Some ''push''\<rparr>
     (Document (JArr [JInt 1]))
   = (DecodeFailure ''Expecting value: line 1 column 1 (char 0)'' ''not json'',
      Document (JArr [JInt 1]))"
  using webhook_rejects_unparseable_body
    [of "\<lparr>body = Inr ''not json'', github_event = Some ''push''\<rparr>" "''not json''"
      "\<lambda>s. if s = ''not json'' then Inl (JSONDecodeError ''Expecting value: line 1 column 1 (char 0)'')
           else Inr JNull"
      "''Expecting value: line 1 column 1 (char 0)''"
      "\<lambda>v. None" "''2025-01-01T00:00:00''" "Document (JArr [JInt 1])" ValueError]
  by simp

text \<open>
  C5, as stated, fails: a POST whose body parses, arriving while the events file does
  not parse, is answered with status 400 and nothing is appended.
\<close>

theorem corrupt_store_counterexample:
  "handle_webhook (\<lambda>s. Inr (JObj [(''ref'', JStr ''main'')])) (\<lambda>v. None) ''2025-01-01T00:00:00''
     \<lparr>body = Inr ''{\"ref\":\"main\"}'', github_event = Some ''push''\<rparr>
     (Malformed ''Expecting value: line 1 column 1 (char 0)'')
   = (DecodeFailure ''Expecting value: line 1 column 1 (char 0)'' ''{\"ref\":\"main\"}'',
      Malformed ''Expecting value: line 1 column 1 (char 0)'')"
  by (simp add: handle_webhook_def load_events_def)

text \<open>
  C5, amended. Take a POST whose body is text that parses and whose document and event
  the handler prints without failure. Arriving while there is no events file, it is
  answered \<open>Received\<close> (status 200) and the file then holds the one event; arriving
  while the file holds a list, it is answered \<open>Received\<close> and the file then holds that
  list with the event appended, without its first entries beyond 100. The event has
  the clock reading as timestamp, the header value (or \<open>unknown\<close>) as type and the
  parsed body as payload. Below the cap nothing else changes: the new list is the old
  one plus the event.
\<close>

theorem webhook_appends_one_event:
  assumes "body req = Inr b" and "loads b = Inr data" and "pprint data = None"
    and "pprint (event_record now (github_event req) data) = None"
    and "event = JObj [(''timestamp'', JStr now),
                       (''event_type'', JStr (case github_event req of None \<Rightarrow> ''unknown'' | Some h \<Rightarrow> h)),
                       (''payload'', data)]"
  shows "handle_webhook loads pprint now req Absent = (Received, Document (JArr [event])) \<and>
         handle_webhook loads pprint now req (Document (JArr events)) =
           (Received, Document (JArr (drop (length events - 99) (events @ [event])))) \<and>
         (length events < 100 \<longrightarrow>
            handle_webhook loads pprint now req (Document (JArr events)) =
              (Received, Document (JArr (events @ [event])))) \<and>
         status_code (fst (handle_webhook loads pprint now req (Document (JArr events)))) = 200"
proof -
  have event: "event_record now (github_event req) data = event"
    by (simp add: event_record_def assms(5))
  have printed: "pprint event = None"
    using assms(4) by (simp add: event)
  show ?thesis
    using assms(1-3) printed
    by (simp add: handle_webhook_def load_events_def last_100_def event)
qed

theorem webhook_appends_one_event_witness:
  "handle_webhook (\<lambda>s. Inr (JObj [(''ref'', JStr ''main'')])) (\<lambda>v. None) ''2025-01-01T00:00:01''
     \<lparr>body = Inr ''{\"ref\":\"main\"}'', github_event = Some ''push''\<rparr>
     (Document (JArr [event_record ''2025-01-01T00:00:00'' None (JStr ''earlier'')]))
   = (Received,
      Document (JArr [JObj [(''timestamp'', JStr ''2025-01-01T00:00:00''),
                            (''event_type'', JStr ''unknown''),
                            (''payload'', JStr ''earlier'')],
                      JObj [(''timestamp'', JStr ''2025-01-01T00:00:01''),
                            (''event_type'', JStr ''push''),
                            (''payload'', JObj [(''ref'', JStr ''main'')])]]))"
  using webhook_appends_one_event
    [of "\<lparr>body = Inr ''{\"ref\":\"main\"}'', github_event = Some ''push''\<rparr>" "''{\"ref\":\"main\"}''"
      "\<lambda>s. Inr (JObj [(''ref'', JStr ''main'')])" "JObj [(''ref'', JStr ''main'')]" "\<lambda>v. None"
      "''2025-01-01T00:00:01''"
      "JObj [(''timestamp'', JStr ''2025-01-01T00:00:01''), (''event_type'', JStr ''push''),
             (''payload'', JObj [(''ref'', JStr ''main'')])]"
      "[event_record ''2025-01-01T00:00:00'' None (JStr ''earlier'')]"]
  by (simp add: event_record_def)

lemma handle_webhook_healthy:
  assumes "ingested loads pprint call data" and "load_events store = Inr (JArr old)"
  shows "handle_webhook loads pprint (fst call) (snd call) store =
           (Received, Document (JArr (last_100 (old @ appended [call] [data]))))"
proof -
  from assms(1) obtain b where "body (snd call) = Inr b" "loads b = Inr data" "pprint data = None"
    "pprint (event_record (fst call) (github_event (snd call)) data) = None"
    by (auto simp: ingested_def split: sum.splits)
  then show ?thesis
    using assms(2) by (simp add: handle_webhook_def appended_def)
qed

lemma appended_Cons:
  "appended (call # calls) (data # datas) = appended [call] [data] @ appended calls datas"
  by (simp add: appended_def)

text \<open>
  Serving calls that are all ingested, on a store that is absent or holds the list
  \<open>old\<close>: every answer is \<open>Received\<close> and the store ends with the last 100 of the old
  entries followed by the new events.
\<close>

lemma serve_healthy:
  assumes "list_all2 (ingested loads pprint) calls datas"
    and "load_events store = Inr (JArr old)"
  shows "fst (serve loads pprint calls store) = replicate (length calls) Received \<and>
         load_events (snd (serve loads pprint calls store)) =
           Inr (JArr (if calls = [] then old else last_100 (old @ appended calls datas)))"
  using assms
proof (induction calls datas arbitrary: store old rule: list_all2_induct)
  case Nil
  then show ?case by (simp add: appended_def)
next
  case (Cons call calls data datas)
  let ?next = "Document (JArr (last_100 (old @ appended [call] [data])))"
  have step: "handle_webhook loads pprint (fst call) (snd call) store = (Received, ?next)"
    using Cons.hyps(1) Cons.prems(1) by (rule handle_webhook_healthy)
  have "load_events ?next = Inr (JArr (last_100 (old @ appended [call] [data])))"
    by (simp add: load_events_def)
  from Cons.IH [OF this] have
    "fst (serve loads pprint calls ?next) = replicate (length calls) Received \<and>
     load_events (snd (serve loads pprint calls ?next)) =
       Inr (JArr (if calls = [] then last_100 (old @ appended [call] [data])
                  else last_100 (last_100 (old @ appended [call] [data]) @ appended calls datas)))" .
  then show ?case
    using Cons.hyps(2)
    by (cases calls)
      (simp_all add: step appended_Cons last_100_absorb appended_def split: prod.splits)
qed

text \<open>
  C1. Starting without an events file, after N calls that are all ingested every
  answer is \<open>Received\<close> and reading the file gives the appended events in arrival order
  without the first N - 100 of them: all of them when N is at most 100, otherwise the
  100 most recent, oldest first. The list read has min N 100 entries.
\<close>

theorem store_holds_last_100_events:
  assumes "list_all2 (ingested loads pprint) calls datas"
  shows "fst (serve loads pprint calls Absent) = replicate (length calls) Received \<and>
         load_events (snd (serve loads pprint calls Absent)) =
           Inr (JArr (drop (length calls - 100) (appended calls datas))) \<and>
         length (drop (length calls - 100) (appended calls datas)) = min (length calls) 100 \<and>
         (length calls \<le> 100 \<longrightarrow>
            load_events (snd (serve loads pprint calls Absent)) = Inr (JArr (appended calls datas)))"
proof -
  have len: "length (appended calls datas) = length calls"
    using assms by (simp add: appended_def list_all2_lengthD)
  have "load_events Absent = Inr (JArr [])"
    by (simp add: load_events_def)
  from serve_healthy [OF assms this] len show ?thesis
    by (auto simp: last_100_def)
qed

theorem store_holds_last_100_events_witness:
  "serve (\<lambda>s. Inr (JStr s)) (\<lambda>v. None)
     [(''2025-01-01T00:00:00'', \<lparr>body = Inr ''a'', github_event = Some ''push''\<rparr>),
      (''2025-01-01T00:00:01'', \<lparr>body = Inr ''b'', github_event = None\<rparr>)] Absent
   = ([Received, Received],
      Document (JArr
        [JObj [(''timestamp'', JStr ''2025-01-01T00:00:00''), (''event_type'', JStr ''push''),
               (''payload'', JStr ''a'')],
         JObj [(''timestamp'', JStr ''2025-01-01T00:00:01''), (''event_type'', JStr ''unknown''),
               (''payload'', JStr ''b'')]]))"
  using store_holds_last_100_events
    [of "\<lambda>s. Inr (JStr s)" "\<lambda>v. None"
      "[(''2025-01-01T00:00:00'', \<lparr>body = Inr ''a'', github_event = Some ''push''\<rparr>),
        (''2025-01-01T00:00:01'', \<lparr>body = Inr ''b'', github_event = None\<rparr>)]"
      "[JStr ''a'', JStr ''b'']"]
  by (simp add: handle_webhook_def load_events_def last_100_def event_record_def)

section \<open>Properties of the recent-events tool\<close>

lemma collect_all_ok:
  assumes "\<And>x. x \<in> set xs \<Longrightarrow> f x = Inr (g x)"
  shows "collect f xs = Inr (map g xs)"
  using assms by (induction xs) auto

lemma timestamp_key_stamped: "stamped e \<Longrightarrow> timestamp_key e = Inr (item_of e)"
  by (cases e) (auto simp: timestamp_key_def item_of_def split: option.splits json.splits)

lemma fst_item_of: "fst (item_of e) = JStr (timestamp_of e)"
  by (simp add: item_of_def)

lemma snd_item_of: "snd (item_of e) = e"
  by (simp add: item_of_def)

lemma insert_desc_items:
  "\<exists>zs. insert_desc (item_of e) (map item_of ys) = Inr (map item_of zs) \<and>
        mset zs = add_mset e (mset ys) \<and>
        (\<forall>t. filter (\<lambda>y. timestamp_of y = t) zs = filter (\<lambda>y. timestamp_of y = t) (e # ys)) \<and>
        (sorted_wrt (\<lambda>a b. timestamp_of b \<le> timestamp_of a) ys \<longrightarrow>
           sorted_wrt (\<lambda>a b. timestamp_of b \<le> timestamp_of a) zs) \<and>
        ((\<forall>y\<in>set ys. timestamp_of e < timestamp_of y) \<longrightarrow> zs = ys @ [e])"
proof (induction ys)
  case Nil
  show ?case by (rule exI [of _ "[e]"]) simp
next
  case (Cons y ys)
  then obtain zs where zs: "insert_desc (item_of e) (map item_of ys) = Inr (map item_of zs)"
    "mset zs = add_mset e (mset ys)"
    "\<And>t. filter (\<lambda>y. timestamp_of y = t) zs = filter (\<lambda>y. timestamp_of y = t) (e # ys)"
    "sorted_wrt (\<lambda>a b. timestamp_of b \<le> timestamp_of a) ys \<Longrightarrow>
           sorted_wrt (\<lambda>a b. timestamp_of b \<le> timestamp_of a) zs"
    "(\<forall>y\<in>set ys. timestamp_of e < timestamp_of y) \<Longrightarrow> zs = ys @ [e]"
    by blast
  have set_zs: "set zs = insert e (set ys)"
    using zs(2) by (metis set_mset_add_mset_insert set_mset_mset)
  show ?case
  proof (cases "timestamp_of e < timestamp_of y")
    case True
    show ?thesis
      apply (rule exI [of _ "y # zs"])
      using True zs set_zs by (auto simp: fst_item_of)
  next
    case False
    show ?thesis
      apply (rule exI [of _ "e # y # ys"])
      using False by (auto simp: fst_item_of)
  qed
qed

lemma sorted_reverse_items:
  "\<exists>zs. sorted_reverse (map item_of xs) = Inr (map item_of zs) \<and>
        mset zs = mset xs \<and>
        (\<forall>t. filter (\<lambda>y. timestamp_of y = t) zs = filter (\<lambda>y. timestamp_of y = t) xs) \<and>
        sorted_wrt (\<lambda>a b. timestamp_of b \<le> timestamp_of a) zs \<and>
        (sorted_wrt (\<lambda>a b. timestamp_of a < timestamp_of b) xs \<longrightarrow> zs = rev xs)"
proof (induction xs)
  case Nil
  show ?case by simp
next
  case (Cons x xs)
  then obtain ys where ys: "sorted_reverse (map item_of xs) = Inr (map item_of ys)"
    "mset ys = mset xs"
    "\<And>t. filter (\<lambda>y. timestamp_of y = t) ys = filter (\<lambda>y. timestamp_of y = t) xs"
    "sorted_wrt (\<lambda>a b. timestamp_of b \<le> timestamp_of a) ys"
    "sorted_wrt (\<lambda>a b. timestamp_of a < timestamp_of b) xs \<Longrightarrow> ys = rev xs"
    by blast
  from insert_desc_items [of x ys] obtain zs where
    zs: "insert_desc (item_of x) (map item_of ys) = Inr (map item_of zs)"
    "mset zs = add_mset x (mset ys)"
    "\<And>t. filter (\<lambda>y. timestamp_of y = t) zs = filter (\<lambda>y. timestamp_of y = t) (x # ys)"
    "sorted_wrt (\<lambda>a b. timestamp_of b \<le> timestamp_of a) ys \<Longrightarrow>
           sorted_wrt (\<lambda>a b. timestamp_of b \<le> timestamp_of a) zs"
    "(\<forall>y\<in>set ys. timestamp_of x < timestamp_of y) \<Longrightarrow> zs = ys @ [x]"
    by blast
  have set_ys: "set ys = set xs"
    using ys(2) by (metis set_mset_mset)
  show ?case
    apply (rule exI [of _ zs])
    using ys zs set_ys by (auto simp: )
qed

lemma sorted_events_stamped:
  assumes "list_all stamped evs"
  shows "\<exists>srt. sorted_events (JArr evs) = Inr srt \<and>
        mset srt = mset evs \<and>
        (\<forall>t. filter (\<lambda>y. timestamp_of y = t) srt = filter (\<lambda>y. timestamp_of y = t) evs) \<and>
        sorted_wrt (\<lambda>a b. timestamp_of b \<le> timestamp_of a) srt \<and>
        (sorted_wrt (\<lambda>a b. timestamp_of a < timestamp_of b) evs \<longrightarrow> srt = rev evs)"
proof -
  have keys: "collect timestamp_key evs = Inr (map item_of evs)"
    using assms by (intro collect_all_ok) (simp add: list_all_iff timestamp_key_stamped)
  from sorted_reverse_items [of evs] obtain zs where
    zs: "sorted_reverse (map item_of evs) = Inr (map item_of zs)"
      "mset zs = mset evs"
      "\<And>t. filter (\<lambda>y. timestamp_of y = t) zs = filter (\<lambda>y. timestamp_of y = t) evs"
      "sorted_wrt (\<lambda>a b. timestamp_of b \<le> timestamp_of a) zs"
      "sorted_wrt (\<lambda>a b. timestamp_of a < timestamp_of b) evs \<Longrightarrow> zs = rev evs"
    by blast
  have "map snd (map item_of zs) = zs"
    by (simp add: snd_item_of comp_def)
  then have "sorted_events (JArr evs) = Inr zs"
    by (simp add: sorted_events_def keys zs(1))
  with zs show ?thesis by blast
qed

text \<open>
  Every event the webhook handler writes is a dictionary with a string timestamp, so
  the logs it produces satisfy the hypothesis of the next two theorems.
\<close>

lemma event_record_stamped: "stamped (event_record now header data) \<and> is_dict (event_record now header data)"
  by (simp add: event_record_def)

text \<open>
  C3. For a log whose events carry string timestamps and a positive limit, the tool
  returns the first \<open>limit\<close> entries of a list \<open>srt\<close> that is a rearrangement of the
  log, in descending timestamp order, in which events with equal timestamps keep their
  log order. When the limit is at least the length of the log, all of \<open>srt\<close> is
  returned. When the log's timestamps are strictly increasing, \<open>srt\<close> is the reversed
  log, so a limit of 3 gives the three latest events, latest first.
\<close>

theorem recent_events_sorted_and_truncated:
  assumes "list_all stamped evs" and "0 < limit"
  shows "\<exists>srt. get_recent_actions_events (Document (JArr evs)) limit = Dumps (JArr (take (nat limit) srt)) \<and>
           mset srt = mset evs \<and>
           sorted_wrt (\<lambda>a b. timestamp_of b \<le> timestamp_of a) srt \<and>
           (\<forall>t. filter (\<lambda>e. timestamp_of e = t) srt = filter (\<lambda>e. timestamp_of e = t) evs) \<and>
           (int (length evs) \<le> limit \<longrightarrow> take (nat limit) srt = srt) \<and>
           (sorted_wrt (\<lambda>a b. timestamp_of a < timestamp_of b) evs \<longrightarrow> srt = rev evs)"
proof -
  from sorted_events_stamped [OF assms(1)] obtain srt where
    srt: "sorted_events (JArr evs) = Inr srt" "mset srt = mset evs"
      "\<forall>t. filter (\<lambda>y. timestamp_of y = t) srt = filter (\<lambda>y. timestamp_of y = t) evs"
      "sorted_wrt (\<lambda>a b. timestamp_of b \<le> timestamp_of a) srt"
      "sorted_wrt (\<lambda>a b. timestamp_of a < timestamp_of b) evs \<longrightarrow> srt = rev evs"
    by blast
  have "length srt = length evs"
    using srt(2) by (rule mset_eq_length)
  moreover have "get_recent_actions_events (Document (JArr evs)) limit = Dumps (JArr (take (nat limit) srt))"
    using assms(2) by (simp add: get_recent_actions_events_def srt(1) slice_to_def)
  ultimately show ?thesis using srt by auto
qed

theorem recent_events_sorted_and_truncated_witness:
  "get_recent_actions_events
     (Document (JArr [run_event ''2025-01-01T10:00:00'' ''build'' [],
                      run_event ''2025-01-01T12:00:00'' ''test'' [],
                      run_event ''2025-01-01T11:00:00'' ''lint'' [],
                      run_event ''2025-01-01T12:00:00'' ''deploy'' []])) 3
   = Dumps (JArr [run_event ''2025-01-01T12:00:00'' ''test'' [],
                  run_event ''2025-01-01T12:00:00'' ''deploy'' [],
                  run_event ''2025-01-01T11:00:00'' ''lint'' []])"
  using recent_events_sorted_and_truncated
    [of "[run_event ''2025-01-01T10:00:00'' ''build'' [],
          run_event ''2025-01-01T12:00:00'' ''test'' [],
          run_event ''2025-01-01T11:00:00'' ''lint'' [],
          run_event ''2025-01-01T12:00:00'' ''deploy'' []]" 3]
  by (simp add: get_recent_actions_events_def sorted_events_def timestamp_key_def slice_to_def
      run_event_def event_record_def)




section \<open>Properties of the workflow-status tool\<close>

lemma selected_payload_dict:
  "is_dict e \<Longrightarrow> selected_payload e = Inr (if is_workflow_run e then payload_of e else None)"
  by (cases e) (auto simp: selected_payload_def split: option.splits json.splits elim: py_eq.elims)

lemma select_workflow_runs_dicts:
  assumes "list_all is_dict evs"
  shows "select_workflow_runs evs = Inr (workflow_payloads evs)"
proof -
  have "collect selected_payload evs =
          Inr (map (\<lambda>e. if is_workflow_run e then payload_of e else None) evs)"
    using assms by (intro collect_all_ok) (simp add: list_all_iff selected_payload_dict)
  moreover have "List.map_filter (\<lambda>p. p)
          (map (\<lambda>e. if is_workflow_run e then payload_of e else None) evs)
        = workflow_payloads evs"
    unfolding workflow_payloads_def by (induction evs) (auto split: option.splits)
  ultimately show ?thesis by (simp add: select_workflow_runs_def)
qed

lemma workflow_name_of_readable: "name_readable p \<Longrightarrow> workflow_name_of p = Inr (run_name p)"
  by (cases p)
    (auto simp: workflow_name_of_def run_name_def split: option.splits elim!: is_dict.elims)

lemma py_eq_JStr: "py_eq v (JStr n) \<longleftrightarrow> v = JStr n"
  by (cases v) auto


lemma runs_named_readable:
  assumes "list_all name_readable ps"
  shows "runs_named n ps = Inr (filter (\<lambda>p. run_name p = JStr n) ps)"
proof -
  have "collect (name_matches n) ps =
          Inr (map (\<lambda>p. if run_name p = JStr n then Some p else None) ps)"
    using assms
    by (intro collect_all_ok)
      (simp add: list_all_iff name_matches_def workflow_name_of_readable py_eq_JStr)
  moreover have "List.map_filter (\<lambda>r. r)
          (map (\<lambda>p. if run_name p = JStr n then Some p else None) ps)
       = filter (\<lambda>p. run_name p = JStr n) ps"
    by (induction ps) auto
  ultimately show ?thesis by (simp add: runs_named_def)
qed

text \<open>
  C9, as stated, fails: after a POST of the body \<^verbatim>\<open>null\<close> classified
  \<^verbatim>\<open>workflow_run\<close> the log holds a workflow-run event whose payload is
  \<^verbatim>\<open>None\<close>; asked for the workflow \<open>deploy\<close>, which matches no run, the tool does
  not report that no runs were found: reading the payload's name raises
  \<^verbatim>\<open>AttributeError\<close>, which leaves the function.
\<close>

theorem null_payload_counterexample:
  "get_workflow_status
     (Document (JArr [event_record ''2025-01-01T10:00:00'' (Some ''workflow_run'') JNull]))
     (Some ''deploy'') = Inl AttributeError"
  by (simp add: get_workflow_status_def select_workflow_runs_def selected_payload_def
      runs_named_def name_matches_def workflow_name_of_def event_record_def)

text \<open>
  C9, amended. Empty results are reported as ordinary results. With no events file the
  recent-events tool returns the empty list and the status tool a status message. For
  a log of dictionaries without workflow-run events the status tool answers
  \<open>No workflow run events found.\<close> When there are workflow runs whose names can all be
  read and none bears the requested non-empty name, it answers
  \<open>No workflow runs found for '<name>'.\<close> None of these is the error object, and no
  exception is raised. An empty requested name is treated as no name at all.
\<close>

theorem empty_results_are_informational:
  "get_recent_actions_events Absent limit = Dumps (JArr []) \<and>
   get_workflow_status Absent workflow_name =
     Inr (Dumps (JObj [(''status'', JStr ''No events file found. No workflows to report.'')])) \<and>
   (list_all is_dict evs \<and> workflow_payloads evs = [] \<longrightarrow>
      get_workflow_status (Document (JArr evs)) workflow_name =
        Inr (Dumps (JObj [(''status'', JStr ''No workflow run events found.'')]))) \<and>
   (list_all is_dict evs \<and> workflow_payloads evs \<noteq> [] \<and>
    list_all name_readable (workflow_payloads evs) \<and>
    n \<noteq> [] \<and> \<not> list_ex (\<lambda>p. run_name p = JStr n) (workflow_payloads evs) \<longrightarrow>
      get_workflow_status (Document (JArr evs)) (Some n) =
        Inr (Dumps (JObj [(''status'',
          JStr (''No workflow runs found for '' @ [CHR 0x27] @ n @ [CHR 0x27] @ ''.''))]))) \<and>
   get_workflow_status store (Some []) = get_workflow_status store None"
  by (auto simp: get_recent_actions_events_def get_workflow_status_def select_workflow_runs_dicts
       runs_named_readable filter_empty_conv list_ex_iff status_message_def
       split: store_file.splits sum.splits)

theorem empty_results_are_informational_witness:
  "get_workflow_status
     (Document (JArr [JObj [(''timestamp'', JStr ''t1''), (''event_type'', JStr ''push''),
                            (''payload'', JObj [(''ref'', JStr ''main'')])]])) None
     = Inr (Dumps (JObj [(''status'', JStr ''No workflow run events found.'')])) \<and>
   get_workflow_status
     (Document (JArr [JObj [(''timestamp'', JStr ''t1''), (''event_type'', JStr ''workflow_run''),
                            (''payload'', JObj [(''workflow'', JObj [(''name'', JStr ''CI'')]),
                                               (''workflow_run'', JNull)])]]))
     (Some ''nonexistent'')
     = Inr (Dumps (JObj [(''status'',
              JStr (''No workflow runs found for '' @ [CHR 0x27] @ ''nonexistent'' @ [CHR 0x27] @ ''.''))]))"
  using empty_results_are_informational
    [of 10 None "[JObj [(''timestamp'', JStr ''t1''), (''event_type'', JStr ''push''),
                        (''payload'', JObj [(''ref'', JStr ''main'')])]]" "''nonexistent''" Absent]
    empty_results_are_informational
    [of 10 None "[JObj [(''timestamp'', JStr ''t1''), (''event_type'', JStr ''workflow_run''),
                        (''payload'', JObj [(''workflow'', JObj [(''name'', JStr ''CI'')]),
                                           (''workflow_run'', JNull)])]]"
      "''nonexistent''" Absent]
  by (simp add: workflow_payloads_def status_message_def run_name_def)

subsection \<open>The loop that keeps one snapshot per workflow\<close>




















text \<open>
  C7. The claim asks that a missing run identifier never supersede an entry, that it
  never be compared, and that no failure reach the caller. The code compares it: with
  two events for the same workflow, one of which has no \<^verbatim>\<open>id\<close>, the comparison
  \<^verbatim>\<open>run_id > latest_statuses[name]["id"]\<close> has \<^verbatim>\<open>None\<close> on one side and raises
  \<^verbatim>\<open>TypeError\<close>, which leaves the function, whichever of the two events comes first.
\<close>

theorem missing_run_id_raises:
  "get_workflow_status
     (Document (JArr [run_event ''2025-01-01T10:00:00'' ''deploy'' [(''id'', JInt 5), (''status'', JStr ''completed'')],
                      run_event ''2025-01-01T11:00:00'' ''deploy'' [(''status'', JStr ''queued'')]]))
     None = Inl TypeError \<and>
   get_workflow_status
     (Document (JArr [run_event ''2025-01-01T10:00:00'' ''deploy'' [(''status'', JStr ''queued'')],
                      run_event ''2025-01-01T11:00:00'' ''deploy'' [(''id'', JInt 5), (''status'', JStr ''completed'')]]))
     None = Inl TypeError"
  by (simp add: get_workflow_status_def select_workflow_runs_def selected_payload_def
      workflow_name_of_def run_details_def report_def py_gt_def run_event_def event_record_def)

text \<open>
  C10. The claim asks that a workflow-run event whose payload has no non-empty workflow
  name be passed over without error. The code passes over a payload whose
  \<^verbatim>\<open>workflow\<close> member is missing or has no name, but when the member is present
  and \<^verbatim>\<open>null\<close> the default of \<^verbatim>\<open>run.get("workflow", {})\<close> does not apply:
  \<^verbatim>\<open>.get("name")\<close> is called on \<^verbatim>\<open>None\<close> and raises \<^verbatim>\<open>AttributeError\<close>, which
  leaves the function before \<^verbatim>\<open>if not name: continue\<close> is reached.
\<close>

theorem null_workflow_member_raises:
  "get_workflow_status
     (Document (JArr [event_record ''2025-01-01T10:00:00'' (Some ''workflow_run'')
                        (JObj [(''workflow'', JNull)])]))
     None = Inl AttributeError \<and>
   get_workflow_status
     (Document (JArr [event_record ''2025-01-01T10:00:00'' (Some ''workflow_run'') (JObj [])]))
     None = Inr (DumpsStatuses [])"
  by (simp add: get_workflow_status_def select_workflow_runs_def selected_payload_def
      workflow_name_of_def report_def event_record_def)

section \<open>An events file that cannot be read\<close>

text \<open>
  For a file that the JSON parser rejects, both tools return the error object carrying
  the parser's message, and the webhook handler leaves the file as it is; for a call
  that would otherwise be ingested, its answer is the status-400 decode failure carrying
  that same message.
\<close>

lemma rejected_store_is_reported:
  "get_recent_actions_events (Malformed msg) limit = ReadError (JSONDecodeError msg) \<and>
   get_workflow_status (Malformed msg) workflow_name = Inr (ReadError (JSONDecodeError msg)) \<and>
   snd (handle_webhook loads pprint now req (Malformed msg)) = Malformed msg \<and>
   (\<forall>b data. body req = Inr b \<and> loads b = Inr data \<and> pprint data = None \<and>
        pprint (event_record now (github_event req) data) = None \<longrightarrow>
      fst (handle_webhook loads pprint now req (Malformed msg)) = DecodeFailure msg b)"
  by (simp add: get_recent_actions_events_def get_workflow_status_def handle_webhook_def
      load_events_def split: sum.splits option.splits)

text \<open>
  C8. The claim asks that reading a store file that exists and holds malformed JSON
  fail with a structured error in both tools. When the file's bytes are not text,
  \<^verbatim>\<open>json.load\<close> raises \<^verbatim>\<open>UnicodeDecodeError\<close>. The recent-events tool, which
  catches every exception, returns the error object, and the webhook handler answers
  with status 400 and leaves the file as it is; but the status tool catches only
  \<^verbatim>\<open>JSONDecodeError\<close> and \<^verbatim>\<open>IOError\<close>, so the exception leaves the function.
\<close>

theorem undecodable_store_escapes:
  "get_workflow_status (Unreadable UnicodeDecodeError) None = Inl UnicodeDecodeError \<and>
   get_recent_actions_events (Unreadable UnicodeDecodeError) 10 = ReadError UnicodeDecodeError \<and>
   handle_webhook (\<lambda>s. Inr (JObj [])) (\<lambda>v. None) ''2025-01-01T00:00:00''
     \<lparr>body = Inr ''{}'', github_event = None\<rparr> (Unreadable UnicodeDecodeError)
   = (Unexpected UnicodeDecodeError, Unreadable UnicodeDecodeError)"
  by (simp add: get_workflow_status_def get_recent_actions_events_def handle_webhook_def
      load_events_def)

end
